theory Spec2Isabelle
  imports Complex_Main
begin

section \<open>JavaScript values\<close>

text \<open>
  The library is written in JavaScript and validates loosely typed arguments at run time,
  so the arguments are modelled as values of a small universe. A DOM element is known by
  its identity, a caller's function by a number. \<open>JObject\<close> stands for any other object
  (a text node, a plain object literal).
\<close>

type_synonym elem = nat

text \<open>
  A Number is a finite value or one of the three special values. Only comparison with the
  constants 0 and 1 is made on numbers, which is exact on doubles, so the finite ones are
  embedded in the reals.
\<close>

datatype jsnum = Fin real | PosInf | NegInf | NaN

datatype jsval =
    JUndefined
  | JNull
  | JBool bool
  | JNum jsnum
  | JStr string
  | JArray "jsval list"
  | JElement elem
  | JFunction nat
  | JObject

datatype js_type = TUndefined | TObject | TBoolean | TNumber | TString | TFunction

fun typeof :: "jsval \<Rightarrow> js_type" where
  "typeof JUndefined = TUndefined"
| "typeof JNull = TObject"
| "typeof (JBool _) = TBoolean"
| "typeof (JNum _) = TNumber"
| "typeof (JStr _) = TString"
| "typeof (JArray _) = TObject"
| "typeof (JElement _) = TObject"
| "typeof (JFunction _) = TFunction"
| "typeof JObject = TObject"

text \<open>The relational operator \<open><\<close> on Numbers: every comparison with NaN is false.\<close>

fun num_less :: "jsnum \<Rightarrow> jsnum \<Rightarrow> bool" where
  "num_less NaN _ = False"
| "num_less _ NaN = False"
| "num_less (Fin a) (Fin b) = (a < b)"
| "num_less (Fin _) PosInf = True"
| "num_less (Fin _) NegInf = False"
| "num_less PosInf _ = False"
| "num_less NegInf NegInf = False"
| "num_less NegInf _ = True"

text \<open>
  \<open>v < c\<close> and \<open>v > c\<close> as the validator uses them: behind \<open>typeof v !== 'number' ||\<close>,
  so they are evaluated on Numbers only.
\<close>

fun less_than :: "jsval \<Rightarrow> jsnum \<Rightarrow> bool" where
  "less_than (JNum a) c = num_less a c"
| "less_than _ c = False"

fun greater_than :: "jsval \<Rightarrow> jsnum \<Rightarrow> bool" where
  "greater_than (JNum a) c = num_less c a"
| "greater_than _ c = False"

text \<open>A destructuring default \<open>{x = d}\<close> applies when the property is \<open>undefined\<close>, not when it is \<open>null\<close>.\<close>

definition dflt :: "jsval \<Rightarrow> jsval \<Rightarrow> jsval" where
  "dflt d v = (if v = JUndefined then d else v)"


section \<open>Errors\<close>

text \<open>
  The source throws \<open>Error\<close> with a message; each throw site is a constructor.
  \<open>TypeError\<close>, \<open>SyntaxError\<close> and \<open>InvalidCharacterError\<close> are the platform's own
  exceptions (reading a property of \<open>undefined\<close>, a selector that does not parse, an
  attribute name that the DOM rejects); \<open>CallbackError\<close> is whatever the caller's function
  throws.
\<close>

datatype error =
    RootInvalid
  | LoadBeforeInvalid
  | LoadAfterInvalid
  | WrapperInvalid
  | SrcTargetInvalid
  | AttrInvalid
  | LazyUrlNotString
  | LazyUrlMissing
  | ViewportEntryInvalid
  | ExeFnInvalid
  | TypeError
  | SyntaxError
  | InvalidCharacterError
  | CallbackError

text \<open>
  The three classes of the specification's error taxonomy; the platform's exceptions and
  the caller's are outside it.
\<close>

datatype error_class = InvalidConfig | InvalidArgument | MissingResourceLocator | Outside_Taxonomy

fun taxonomy :: "error \<Rightarrow> error_class" where
  "taxonomy RootInvalid = InvalidConfig"
| "taxonomy LoadBeforeInvalid = InvalidConfig"
| "taxonomy LoadAfterInvalid = InvalidConfig"
| "taxonomy WrapperInvalid = InvalidArgument"
| "taxonomy SrcTargetInvalid = InvalidArgument"
| "taxonomy AttrInvalid = InvalidArgument"
| "taxonomy LazyUrlNotString = InvalidArgument"
| "taxonomy ViewportEntryInvalid = InvalidArgument"
| "taxonomy ExeFnInvalid = InvalidArgument"
| "taxonomy LazyUrlMissing = MissingResourceLocator"
| "taxonomy TypeError = Outside_Taxonomy"
| "taxonomy SyntaxError = Outside_Taxonomy"
| "taxonomy InvalidCharacterError = Outside_Taxonomy"
| "taxonomy CallbackError = Outside_Taxonomy"


section \<open>The platform: elements, observers, state\<close>

text \<open>
  An element carries its content attributes. \<open>dataset.lazyUrl\<close> is the DOM's view of the
  attribute \<open>data-lazy-url\<close>, so both are the same entry of \<open>attributes\<close>. On an element
  whose interface reflects \<open>src\<close> (an \<open>img\<close>, a \<open>video\<close>, an \<open>iframe\<close>), the property \<open>src\<close>
  is a view of the attribute \<open>src\<close> in the same way; on any other element an assignment to
  \<open>src\<close> creates a property of the object, which is the field \<open>src\<close>.
\<close>

record element =
  attributes :: "string \<rightharpoonup> string"
  src :: "string option"

text \<open>
  The caller's \<open>options\<close> object (\<open>root_opt\<close> is its property \<open>root\<close>), and the dictionary
  that \<open>#config\<close> stores for the observer.
\<close>

record observer_options =
  root_opt :: jsval
  loadBefore :: jsval
  loadAfter :: jsval

record observer_init =
  init_root :: jsval
  rootMargin :: string
  threshold :: jsval


text \<open>
  The two closures handed to \<open>new IntersectionObserver\<close>, with what they capture:
  \<open>attr\<close> (null or a string once \<open>media\<close> has validated it) and the caller's function.
\<close>

datatype callback = RenderMedia "string option" | HandleFunctionExecution jsval

record intersection_observer =
  callback :: callback
  init :: "observer_init option"
  targets :: "elem list"

text \<open>
  The state: the instance's private fields \<open>#observer\<close> and \<open>#options\<close>, and the platform
  around it: every observer created so far (an abandoned one stays alive), the elements of
  the document, and the log of the caller's functions that were invoked.
\<close>

record state =
  this_observer :: "nat option"
  this_options :: "observer_init option"
  heap :: "intersection_observer list"
  document :: "elem \<Rightarrow> element"
  invoked :: "nat list"

type_synonym 'a result = "(error + 'a) \<times> state"

text \<open>
  What the library takes from the platform and from its caller without defining it:

  \<^item> selector matching (\<open>querySelectorAll\<close> from the document, or from a wrapper element;
    \<open>None\<close> is the \<open>SyntaxError\<close> of a selector that does not parse). On a page the
    elements that a query answers with are all different; the theorems that need it say
    so;

  \<^item> the rendering of a Number in a template string;

  \<^item> what \<open>setAttribute\<close> makes of a name on an element: \<open>None\<close> when the DOM rejects the
    name with an \<open>InvalidCharacterError\<close> (the name \<open>a b\<close>, say), otherwise the name under
    which the attribute is stored (on an HTML element, the name in lower case);

  \<^item> which elements reflect the property \<open>src\<close> as the attribute \<open>src\<close>;

  \<^item> the caller's functions: \<open>throws f before\<close> says that function \<open>f\<close>, invoked when
    the functions of the list \<open>before\<close> have been invoked, throws instead of returning.
\<close>

record platform =
  querySelectorAll :: "(elem \<Rightarrow> element) \<Rightarrow> elem option \<Rightarrow> string \<Rightarrow> elem list option"
  numberToString :: "jsnum \<Rightarrow> string"
  qualifiedName :: "elem \<Rightarrow> string \<Rightarrow> string option"
  src_reflected :: "elem \<Rightarrow> bool"
  throws :: "nat \<Rightarrow> nat list \<Rightarrow> bool"


section \<open>utils.js\<close>

text \<open>\<open>element && element instanceof Element && element.nodeType === 1\<close>\<close>

fun validDOMElement :: "jsval \<Rightarrow> bool" where
  "validDOMElement (JElement _) = True"
| "validDOMElement _ = False"



section \<open>lazyload.js\<close>

subsection \<open>\<open>#config\<close>\<close>

text \<open>\<open>`${loadBefore}`\<close>: the text of the value in a template string; a Number alone reaches it.\<close>

fun template_text :: "platform \<Rightarrow> jsval \<Rightarrow> string" where
  "template_text P (JNum n) = numberToString P n"
| "template_text P _ = []"

definition config :: "platform \<Rightarrow> jsval \<Rightarrow> jsval \<Rightarrow> jsval \<Rightarrow> state \<Rightarrow> unit result" where
  "config P root0 loadBefore0 loadAfter0 s =
     (let root = dflt JNull root0;
          loadBefore = dflt (JNum (Fin 0)) loadBefore0;
          loadAfter = dflt (JNum (Fin 0)) loadAfter0;
          isValidDOM = (if root \<noteq> JNull then validDOMElement root else True)
      in if isValidDOM = False then (Inl RootInvalid, s)
         else if loadBefore = JNull \<or> loadBefore = JUndefined \<or> typeof loadBefore \<noteq> TNumber
                 \<or> less_than loadBefore (Fin 0)
           then (Inl LoadBeforeInvalid, s)
         else if loadAfter = JNull \<or> loadAfter = JUndefined \<or> typeof loadAfter \<noteq> TNumber
                 \<or> less_than loadAfter (Fin 0) \<or> greater_than loadAfter (Fin 1)
           then (Inl LoadAfterInvalid, s)
         else (Inr (),
               s\<lparr>this_options := Some \<lparr>init_root = root,
                    rootMargin = template_text P loadBefore @ ''px'',
                    threshold = loadAfter\<rparr>\<rparr>))"

text \<open>The fields before the constructor body runs, and the constructor: \<open>this.#config()\<close>.\<close>

definition fresh :: "(elem \<Rightarrow> element) \<Rightarrow> state" where
  "fresh doc = \<lparr>this_observer = None, this_options = None, heap = [], document = doc, invoked = []\<rparr>"






subsection \<open>The observer\<close>

text \<open>
  \<open>this.#observer = new IntersectionObserver(cb, this.#options)\<close>: a new observer with no
  target; the handle is its position among the observers created. The platform's
  constructor is taken to accept the stored dictionary.
\<close>

definition new_observer :: "callback \<Rightarrow> state \<Rightarrow> state" where
  "new_observer cb s =
     s\<lparr>this_observer := Some (length (heap s)),
       heap := heap s @ [\<lparr>callback = cb, init = this_options s, targets = []\<rparr>]\<rparr>"

text \<open>\<open>observe\<close> adds a target once; \<open>unobserve\<close> removes it.\<close>

definition observe :: "nat \<Rightarrow> elem \<Rightarrow> state \<Rightarrow> state" where
  "observe h e s =
     (if h < length (heap s) \<and> e \<notin> set (targets (heap s ! h))
      then s\<lparr>heap := (heap s)[h := (heap s ! h)\<lparr>targets := targets (heap s ! h) @ [e]\<rparr>]\<rparr>
      else s)"

definition unobserve :: "nat \<Rightarrow> elem \<Rightarrow> state \<Rightarrow> state" where
  "unobserve h e s =
     (if h < length (heap s)
      then s\<lparr>heap := (heap s)[h := (heap s ! h)\<lparr>targets := removeAll e (targets (heap s ! h))\<rparr>]\<rparr>
      else s)"

text \<open>
  Element mutations. \<open>put_attribute\<close> is the write to the attribute list that the DOM
  makes once it has a name to store the value under; the assignment
  \<open>dataset.lazyUrl = v\<close> is that write under the name \<open>data-lazy-url\<close>.
\<close>

definition put_attribute :: "elem \<Rightarrow> string \<Rightarrow> string \<Rightarrow> state \<Rightarrow> state" where
  "put_attribute e name v s =
     s\<lparr>document := (document s)(e := (document s e)\<lparr>attributes := (attributes (document s e))(name \<mapsto> v)\<rparr>)\<rparr>"


definition removeAttribute :: "elem \<Rightarrow> string \<Rightarrow> state \<Rightarrow> state" where
  "removeAttribute e name s =
     s\<lparr>document := (document s)(e := (document s e)\<lparr>attributes := (attributes (document s e))(name := None)\<rparr>)\<rparr>"

text \<open>
  \<open>srcElem.src = v\<close>: on an element that reflects \<open>src\<close> the assignment writes the attribute
  \<open>src\<close>; on any other element it sets a property of the object.
\<close>

definition set_src :: "platform \<Rightarrow> elem \<Rightarrow> string \<Rightarrow> state \<Rightarrow> state" where
  "set_src P e v s =
     (if src_reflected P e then put_attribute e ''src'' v s
      else s\<lparr>document := (document s)(e := (document s e)\<lparr>src := Some v\<rparr>)\<rparr>)"




subsection \<open>\<open>#renderMedia\<close>\<close>




subsection \<open>\<open>#handleFunctionExecution\<close>\<close>







subsection \<open>\<open>media\<close>\<close>









subsection \<open>\<open>execute\<close>\<close>




section \<open>The specification's vocabulary\<close>

text \<open>
  The conditions under which the specification says that validation rejects a value, in
  its own words, to be compared with what \<open>config\<close> does: a root that is present and is not
  an element; a margin that is absent, not numeric or negative; a threshold that is absent,
  not numeric or outside the interval from 0 to 1. NaN is of type Number and lies in no
  interval.
\<close>

definition in_unit_interval :: "jsval \<Rightarrow> bool" where
  "in_unit_interval t = (case t of JNum (Fin r) \<Rightarrow> 0 \<le> r \<and> r \<le> 1 | _ \<Rightarrow> False)"

definition spec_root_rejected :: "jsval \<Rightarrow> bool" where
  "spec_root_rejected r = (r \<noteq> JNull \<and> validDOMElement r = False)"

definition spec_margin_rejected :: "jsval \<Rightarrow> bool" where
  "spec_margin_rejected m = (m = JNull \<or> typeof m \<noteq> TNumber \<or> less_than m (Fin 0))"

definition spec_threshold_rejected :: "jsval \<Rightarrow> bool" where
  "spec_threshold_rejected t = (t = JNull \<or> typeof t \<noteq> TNumber \<or> in_unit_interval t = False)"





section \<open>A concrete page\<close>

text \<open>
  A page for the closed instances: the selector \<open>img\<close> matches the elements 0 and 1, no
  other selector matches anything, no element has an attribute yet, and the numbers 0 and
  10, the only ones rendered there, have their decimal text. The elements are HTML
  elements that reflect \<open>src\<close>: an attribute name is stored in lower case, and is rejected
  when it is empty or has a character that the DOM standard forbids in an attribute name
  (white space, NUL, \<open>/\<close>, \<open>=\<close>, \<open>>\<close>). The caller's function 9 throws whenever it is
  invoked; the other functions return.
\<close>

definition blank :: "elem \<Rightarrow> element" where
  "blank = (\<lambda>e. \<lparr>attributes = Map.empty, src = None\<rparr>)"

definition lower_case :: "char \<Rightarrow> char" where
  "lower_case c =
     (case map_of (zip ''ABCDEFGHIJKLMNOPQRSTUVWXYZ'' ''abcdefghijklmnopqrstuvwxyz'') c of
        None \<Rightarrow> c
      | Some l \<Rightarrow> l)"

definition forbidden :: "char list" where
  "forbidden = [CHR 0x00, CHR 0x09, CHR 0x0A, CHR 0x0C, CHR 0x0D, CHR '' '', CHR ''/'', CHR ''='', CHR ''>'']"

definition demo :: platform where
  "demo = \<lparr>querySelectorAll = (\<lambda>doc w sel. if sel = ''img'' then Some [0, 1] else Some []),
           numberToString = (\<lambda>n. if n = Fin 10 then ''10'' else if n = Fin 0 then ''0'' else []),
           qualifiedName = (\<lambda>e name. if name = [] \<or> list_ex (\<lambda>c. c \<in> set forbidden) name then None
                                      else Some (map lower_case name)),
           src_reflected = (\<lambda>e. True),
           throws = (\<lambda>f before. f = 9)\<rparr>"











section \<open>Configuration validation\<close>

lemma typeof_number: "typeof v = TNumber \<longleftrightarrow> (\<exists>n. v = JNum n)"
  by (cases v) auto

lemma unit_interval_iff:
  "n \<noteq> NaN \<Longrightarrow> in_unit_interval (JNum n) \<longleftrightarrow> \<not> num_less n (Fin 0) \<and> \<not> num_less (Fin 1) n"
  by (cases n) (auto simp: in_unit_interval_def)

text \<open>
  C3, as amended. \<open>config\<close>, which the constructor and every reconfiguration run, fails
  exactly when the root is present and is not an element, or the margin is absent (null),
  not numeric or negative, or the threshold is absent (null), not numeric or outside
  [0,1]; the failure is an \<open>InvalidConfig\<close> and leaves the state as it was. On success the
  stored configuration has the root, \<open>rootMargin\<close> the text of the margin followed by
  \<open>px\<close>, and the threshold unchanged. The values are those after the defaults (no root,
  0, 0) have replaced what the caller left \<open>undefined\<close>; the statement leaves a NaN
  threshold aside.
\<close>

theorem config_validation:
  assumes "dflt (JNum (Fin 0)) loadAfter_in \<noteq> JNum NaN"
  shows "(let r = dflt JNull root_in; m = dflt (JNum (Fin 0)) loadBefore_in;
              t = dflt (JNum (Fin 0)) loadAfter_in
          in case config P root_in loadBefore_in loadAfter_in s of
               (Inl e, s') \<Rightarrow> taxonomy e = InvalidConfig \<and> s' = s
                  \<and> (spec_root_rejected r \<or> spec_margin_rejected m \<or> spec_threshold_rejected t)
             | (Inr _, s') \<Rightarrow> \<not> spec_root_rejected r \<and> \<not> spec_margin_rejected m \<and> \<not> spec_threshold_rejected t
                  \<and> (\<exists>n. m = JNum n \<and>
                        s' = s\<lparr>this_options := Some \<lparr>init_root = r, rootMargin = numberToString P n @ ''px'',
                                                       threshold = t\<rparr>\<rparr>))"
proof -
  define r where "r = dflt JNull root_in"
  define m where "m = dflt (JNum (Fin 0)) loadBefore_in"
  define t where "t = dflt (JNum (Fin 0)) loadAfter_in"
  have nan: "t \<noteq> JNum NaN" using assms by (simp add: t_def)
  have m_und: "m \<noteq> JUndefined" and t_und: "t \<noteq> JUndefined"
    by (simp_all add: m_def t_def dflt_def)
  have thr: "typeof t = TNumber \<Longrightarrow> in_unit_interval t \<longleftrightarrow> \<not> less_than t (Fin 0) \<and> \<not> greater_than t (Fin 1)"
    using nan unit_interval_iff by (auto simp: typeof_number)
  consider (root) "spec_root_rejected r"
    | (margin) "\<not> spec_root_rejected r" "spec_margin_rejected m"
    | (threshold) "\<not> spec_root_rejected r" "\<not> spec_margin_rejected m" "spec_threshold_rejected t"
    | (ok) "\<not> spec_root_rejected r" "\<not> spec_margin_rejected m" "\<not> spec_threshold_rejected t"
    by blast
  then show ?thesis
  proof cases
    case root
    then show ?thesis
      unfolding config_def Let_def r_def[symmetric] m_def[symmetric] t_def[symmetric]
      by (auto simp: spec_root_rejected_def)
  next
    case margin
    then show ?thesis
      unfolding config_def Let_def r_def[symmetric] m_def[symmetric] t_def[symmetric]
      by (auto simp: spec_root_rejected_def spec_margin_rejected_def)
  next
    case threshold
    then show ?thesis
      unfolding config_def Let_def r_def[symmetric] m_def[symmetric] t_def[symmetric]
      using thr m_und t_und
      by (auto simp: spec_root_rejected_def spec_margin_rejected_def spec_threshold_rejected_def)
  next
    case ok
    then show ?thesis
      unfolding config_def Let_def r_def[symmetric] m_def[symmetric] t_def[symmetric]
      using thr m_und t_und
      by (auto simp: spec_root_rejected_def spec_margin_rejected_def spec_threshold_rejected_def typeof_number)
  qed
qed

text \<open>A margin of 10 and a threshold of one half are accepted and stored as \<open>10px\<close> and one half.\<close>

theorem config_validation_witness:
  "dflt (JNum (Fin 0)) (JNum (Fin (1/2))) \<noteq> JNum NaN
   \<and> config demo JNull (JNum (Fin 10)) (JNum (Fin (1/2))) (fresh blank)
       = (Inr (), (fresh blank)\<lparr>this_options := Some \<lparr>init_root = JNull, rootMargin = ''10px'',
                                                      threshold = JNum (Fin (1/2))\<rparr>\<rparr>)"
  using config_validation [where loadAfter_in = "JNum (Fin (1/2))" and root_in = JNull
      and loadBefore_in = "JNum (Fin 10)" and P = demo and s = "fresh blank"]
  by (simp add: dflt_def config_def demo_def)

text \<open>
  C3 as stated fails: a root that is not an element makes validation fail with an
  \<open>InvalidConfig\<close> although neither the margin nor the threshold is one the claim rejects.
\<close>

theorem config_root_counterexample:
  "config demo (JStr ''#app'') (JNum (Fin 0)) (JNum (Fin 0)) (fresh blank) = (Inl RootInvalid, fresh blank)
   \<and> taxonomy RootInvalid = InvalidConfig
   \<and> \<not> spec_margin_rejected (JNum (Fin 0)) \<and> \<not> spec_threshold_rejected (JNum (Fin 0))"
  by (simp add: config_def dflt_def spec_margin_rejected_def spec_threshold_rejected_def in_unit_interval_def)

text \<open>A NaN threshold, which the amended statement leaves aside, passes both comparisons and is stored.\<close>

lemma config_nan_threshold:
  "config P JNull (JNum (Fin 0)) (JNum NaN) s =
     (Inr (), s\<lparr>this_options := Some \<lparr>init_root = JNull, rootMargin = numberToString P (Fin 0) @ ''px'',
                                       threshold = JNum NaN\<rparr>\<rparr>)"
  by (simp add: config_def dflt_def)

text \<open>
  C4. The claim says that a threshold given as a sequence of numbers in [0,1] is accepted
  and carried by the configuration. In the code \<open>typeof\<close> of an array is \<open>object\<close>, so
  \<open>config\<close> rejects every array threshold with an \<open>InvalidConfig\<close>, whatever its elements,
  the root and the margin.
\<close>

theorem config_array_threshold_rejected:
  "\<exists>e. config P root_in loadBefore_in (JArray ts) s = (Inl e, s) \<and> taxonomy e = InvalidConfig"
  by (simp add: config_def dflt_def Let_def)

text \<open>The thresholds 0, one half and 1, given as an array, are rejected.\<close>

theorem config_array_threshold_witness:
  "config demo JNull (JNum (Fin 0)) (JArray [JNum (Fin 0), JNum (Fin (1/2)), JNum (Fin 1)]) (fresh blank)
     = (Inl LoadAfterInvalid, fresh blank)"
  using config_array_threshold_rejected [where P = demo and root_in = JNull and loadBefore_in = "JNum (Fin 0)"
      and ts = "[JNum (Fin 0), JNum (Fin (1/2)), JNum (Fin 1)]" and s = "fresh blank"]
  by (simp add: config_def dflt_def)


section \<open>Frame properties and the loop over a batch\<close>




lemma unobserve_frame [simp]:
  "invoked (unobserve h e s) = invoked s" "document (unobserve h e s) = document s"
  "length (heap (unobserve h e s)) = length (heap s)"
  "this_observer (unobserve h e s) = this_observer s" "this_options (unobserve h e s) = this_options s"
  by (simp_all add: unobserve_def)

lemma unobserve_callback [simp]:
  "k < length (heap s) \<Longrightarrow> callback (heap (unobserve h e s) ! k) = callback (heap s ! k)"
  by (cases "k = h") (simp_all add: unobserve_def)

lemma unobserve_targets:
  "h < length (heap s) \<Longrightarrow> targets (heap (unobserve h e s) ! h) = removeAll e (targets (heap s ! h))"
  by (simp add: unobserve_def)





section \<open>Callback execution\<close>










section \<open>The body of \<open>media\<close>\<close>

lemma new_observer_simps [simp]:
  "document (new_observer cb s) = document s" "invoked (new_observer cb s) = invoked s"
  "this_options (new_observer cb s) = this_options s"
  "this_observer (new_observer cb s) = Some (length (heap s))"
  "heap (new_observer cb s) = heap s @ [\<lparr>callback = cb, init = this_options s, targets = []\<rparr>]"
  by (simp_all add: new_observer_def)

lemma put_attribute_frame [simp]:
  "heap (put_attribute e k v s) = heap s" "invoked (put_attribute e k v s) = invoked s"
  "this_options (put_attribute e k v s) = this_options s"
  "this_observer (put_attribute e k v s) = this_observer s"
  by (simp_all add: put_attribute_def)







text \<open>Registration of the resolved elements with the new observer.\<close>

lemma observe_frame [simp]:
  "document (observe h e s) = document s" "invoked (observe h e s) = invoked s"
  "this_observer (observe h e s) = this_observer s" "this_options (observe h e s) = this_options s"
  "length (heap (observe h e s)) = length (heap s)"
  by (simp_all add: observe_def)






section \<open>Locators that cannot be assigned\<close>



















section \<open>Registration by \<open>media\<close>\<close>










section \<open>The media handler\<close>

lemma removeAttribute_frame [simp]:
  "heap (removeAttribute e k s) = heap s" "invoked (removeAttribute e k s) = invoked s"
  "this_options (removeAttribute e k s) = this_options s"
  "this_observer (removeAttribute e k s) = this_observer s"
  by (simp_all add: removeAttribute_def)

lemma set_src_frame [simp]:
  "heap (set_src P e v s) = heap s" "invoked (set_src P e v s) = invoked s"
  "this_options (set_src P e v s) = this_options s"
  "this_observer (set_src P e v s) = this_observer s"
  by (simp_all add: set_src_def)















section \<open>The concrete runs\<close>











section \<open>Applying a locator\<close>






section \<open>A batch with a missing locator\<close>




section \<open>The selector argument\<close>




section \<open>Calls with the default options\<close>




section \<open>The empty locator\<close>




end
